theory Spec2Isabelle
  imports Complex_Main "HOL-Library.AList"
begin

section \<open>Values of the Python program\<close>

text \<open>
  The analyzer of \<^verbatim>\<open>src/analyzer.py\<close> works on what \<^verbatim>\<open>json.loads\<close> returns:
  \<^verbatim>\<open>None\<close>, booleans, integers, strings, lists and dictionaries (a reply whose
  numbers are not all integers is outside the values modelled). A string is a list of
  characters, one per code point. A dictionary is an association list in insertion
  order; \<open>map_of\<close> reads it and \<open>AList.update\<close> writes it the way Python does
  (an existing key keeps its place, a new key goes last).
\<close>

datatype json =
    JNull
  | JBool bool
  | JInt int
  | JStr string
  | JList "json list"
  | JDict "(string \<times> json) list"

type_synonym pydict = "(string \<times> json) list"

text \<open>
  An exception is kept as the name of its class and the text \<^verbatim>\<open>str(e)\<close> gives for it.
  Only instances of \<^verbatim>\<open>Exception\<close> are modelled: an interrupt of the whole run
  (\<^verbatim>\<open>KeyboardInterrupt\<close>) is outside the model.
\<close>

datatype py_error = PyError (err_type: string) (err_text: string)

definition TypeError :: "string \<Rightarrow> py_error" where
  "TypeError msg = PyError ''TypeError'' msg"

definition KeyError :: "string \<Rightarrow> py_error" where
  "KeyError k = PyError ''KeyError'' ([CHR 0x27] @ k @ [CHR 0x27])"

definition ZeroDivisionError :: py_error where
  "ZeroDivisionError = PyError ''ZeroDivisionError'' ''division by zero''"

definition OverflowError :: "string \<Rightarrow> py_error" where
  "OverflowError msg = PyError ''OverflowError'' msg"

text \<open>The name Python gives to the type of a value, as it appears in its error texts.\<close>

fun type_name :: "json \<Rightarrow> string" where
  "type_name JNull = ''NoneType''"
| "type_name (JBool _) = ''bool''"
| "type_name (JInt _) = ''int''"
| "type_name (JStr _) = ''str''"
| "type_name (JList _) = ''list''"
| "type_name (JDict _) = ''dict''"

text \<open>
  \<^verbatim>\<open>obj[key] = value\<close> with a string key: a dictionary is updated, a list refuses the
  index, every other value refuses item assignment.
\<close>

fun setitem :: "json \<Rightarrow> string \<Rightarrow> json \<Rightarrow> py_error + pydict" where
  "setitem (JDict d) k v = Inr (AList.update k v d)"
| "setitem (JList _) k v = Inl (TypeError ''list indices must be integers or slices, not str'')"
| "setitem x k v =
     Inl (TypeError ([CHR 0x27] @ type_name x @ ''' object does not support item assignment''))"

text \<open>\<^verbatim>\<open>d[key]\<close> on a dictionary: the value, or \<^verbatim>\<open>KeyError\<close>.\<close>

definition getitem :: "pydict \<Rightarrow> string \<Rightarrow> py_error + json" where
  "getitem d k = (case map_of d k of None \<Rightarrow> Inl (KeyError k) | Some v \<Rightarrow> Inr v)"

text \<open>\<^verbatim>\<open>d.get(key, default)\<close>.\<close>

definition get_default :: "pydict \<Rightarrow> string \<Rightarrow> json \<Rightarrow> json" where
  "get_default d k dflt = (case map_of d k of None \<Rightarrow> dflt | Some v \<Rightarrow> v)"

section \<open>Numbers: integers, floats, division and rounding\<close>

text \<open>
  A Python float is a binary64 value: it is kept as the exact rational it denotes, or as
  one of the three special values (the sign of a zero is not kept: nothing in the
  analyzer observes it). \<open>round_to_double\<close> is the rounding every float operation ends
  with: to the nearest value with 53 significant bits (spacing \<open>2 ^ (e - 52)\<close> in the
  binade \<open>2 ^ e\<close>, and \<open>2 ^ - 1074\<close> below the normal range), a tie going to the even
  significand. A result of magnitude \<open>2 ^ 1024\<close> or more has left the format.
\<close>

datatype pyfloat = Finite rat | PosInf | NegInf | NaN

datatype pynum = PyInt int | PyFloat pyfloat

fun bit_length :: "nat \<Rightarrow> nat" where
  "bit_length n = (if n = 0 then 0 else Suc (bit_length (n div 2)))"

declare bit_length.simps [simp del]

definition pow2 :: "int \<Rightarrow> rat" where
  "pow2 k = (if 0 \<le> k then 2 ^ nat k else 1 / 2 ^ nat (- k))"

text \<open>For \<open>0 < a\<close>, the exponent \<open>e\<close> with \<open>2 ^ e \<le> a < 2 ^ (e + 1)\<close>.\<close>

definition floor_log2 :: "rat \<Rightarrow> int" where
  "floor_log2 a =
     (if 1 \<le> a then int (bit_length (nat \<lfloor>a\<rfloor>)) - 1
      else - int (bit_length (nat (\<lceil>1 / a\<rceil> - 1))))"

definition round_half_even :: "rat \<Rightarrow> int" where
  "round_half_even x =
     (let f = \<lfloor>x\<rfloor>; d = x - of_int f
      in if d < 1 / 2 then f
         else if 1 / 2 < d then f + 1
         else if even f then f else f + 1)"

definition round_to_double :: "rat \<Rightarrow> rat" where
  "round_to_double q =
     (if q = 0 then 0
      else let e = max (floor_log2 \<bar>q\<bar>) (- 1022);
               u = pow2 (e - 52)
           in of_int (round_half_even (q / u)) * u)"

definition out_of_range :: "rat \<Rightarrow> bool" where
  "out_of_range r = (2 ^ 1024 \<le> \<bar>r\<bar>)"

text \<open>A float operation whose rounded result has left the format yields an infinity.\<close>

definition overflow :: "rat \<Rightarrow> pyfloat" where
  "overflow r = (if out_of_range r then (if 0 < r then PosInf else NegInf) else Finite r)"

text \<open>
  \<^verbatim>\<open>a / b\<close> on two integers: the exact quotient, correctly rounded;
  \<^verbatim>\<open>ZeroDivisionError\<close> for a zero divisor and \<^verbatim>\<open>OverflowError\<close> when the quotient
  is too large for a float.
\<close>

definition int_truediv :: "int \<Rightarrow> int \<Rightarrow> py_error + pyfloat" where
  "int_truediv a b =
     (if b = 0 then Inl ZeroDivisionError
      else let r = round_to_double (of_int a / of_int b)
           in if out_of_range r
              then Inl (OverflowError ''integer division result too large for a float'')
              else Inr (Finite r))"

text \<open>\<^verbatim>\<open>x * y\<close> on two floats.\<close>

fun float_mul :: "pyfloat \<Rightarrow> pyfloat \<Rightarrow> pyfloat" where
  "float_mul (Finite a) (Finite b) = overflow (round_to_double (a * b))"
| "float_mul NaN _ = NaN"
| "float_mul _ NaN = NaN"
| "float_mul (Finite a) PosInf = (if a = 0 then NaN else if 0 < a then PosInf else NegInf)"
| "float_mul (Finite a) NegInf = (if a = 0 then NaN else if 0 < a then NegInf else PosInf)"
| "float_mul PosInf (Finite b) = (if b = 0 then NaN else if 0 < b then PosInf else NegInf)"
| "float_mul NegInf (Finite b) = (if b = 0 then NaN else if 0 < b then NegInf else PosInf)"
| "float_mul PosInf PosInf = PosInf"
| "float_mul PosInf NegInf = NegInf"
| "float_mul NegInf PosInf = NegInf"
| "float_mul NegInf NegInf = PosInf"

text \<open>
  \<^verbatim>\<open>round(x, ndigits)\<close> on a float, \<open>ndigits\<close> not negative: the decimal with
  \<open>ndigits\<close> places nearest to the exact value of \<open>x\<close> (a tie going to the even last
  digit), converted back to the nearest float; a special value is returned as it is.
\<close>

definition round_decimals :: "nat \<Rightarrow> rat \<Rightarrow> rat" where
  "round_decimals ndigits x = of_int (round_half_even (x * 10 ^ ndigits)) / 10 ^ ndigits"

fun py_round :: "pyfloat \<Rightarrow> nat \<Rightarrow> py_error + pyfloat" where
  "py_round (Finite x) ndigits =
     (let r = round_to_double (round_decimals ndigits x)
      in if out_of_range r
         then Inl (OverflowError ''rounded value too large to represent'')
         else Inr (Finite r))"
| "py_round x ndigits = Inr x"

text \<open>
  \<^verbatim>\<open>sum(scores)\<close>: the running total starts at the integer 0; a boolean counts as 0
  or 1; any other value cannot be added to an integer.
\<close>

fun py_sum :: "int \<Rightarrow> json list \<Rightarrow> py_error + int" where
  "py_sum acc [] = Inr acc"
| "py_sum acc (JInt i # xs) = py_sum (acc + i) xs"
| "py_sum acc (JBool b # xs) = py_sum (acc + (if b then 1 else 0)) xs"
| "py_sum acc (x # xs) =
     Inl (TypeError (''unsupported operand type(s) for +: 'int' and ''
                     @ [CHR 0x27] @ type_name x @ [CHR 0x27]))"

section \<open>Sequencing, iteration, counting\<close>

text \<open>Statements in sequence: the first exception raised ends the computation.\<close>

definition then_do :: "'e + 'a \<Rightarrow> ('a \<Rightarrow> 'e + 'b) \<Rightarrow> 'e + 'b" where
  "then_do m f = (case m of Inl e \<Rightarrow> Inl e | Inr x \<Rightarrow> f x)"

text \<open>A list comprehension \<^verbatim>\<open>[f(r) for r in rs]\<close>, evaluated from the left.\<close>

fun comprehension :: "('a \<Rightarrow> 'e + 'b) \<Rightarrow> 'a list \<Rightarrow> 'e + 'b list" where
  "comprehension f [] = Inr []"
| "comprehension f (x # xs) =
     then_do (f x) (\<lambda>y. then_do (comprehension f xs) (\<lambda>ys. Inr (y # ys)))"

text \<open>
  What \<^verbatim>\<open>list.extend\<close> iterates over: the elements of a list, the characters of a
  string, the keys of a dictionary; the other values are not iterable.
\<close>

fun py_iter :: "json \<Rightarrow> py_error + json list" where
  "py_iter (JList xs) = Inr xs"
| "py_iter (JStr s) = Inr (map (\<lambda>c. JStr [c]) s)"
| "py_iter (JDict d) = Inr (map (\<lambda>kv. JStr (fst kv)) d)"
| "py_iter x = Inl (TypeError ([CHR 0x27] @ type_name x @ ''' object is not iterable''))"

text \<open>\<^verbatim>\<open>len(x)\<close>.\<close>

fun py_len :: "json \<Rightarrow> py_error + nat" where
  "py_len (JStr s) = Inr (length s)"
| "py_len (JList xs) = Inr (length xs)"
| "py_len (JDict d) = Inr (length d)"
| "py_len x = Inl (TypeError (''object of type '' @ [CHR 0x27] @ type_name x @ ''' has no len()''))"

text \<open>
  \<^verbatim>\<open>x[:200] + '...'\<close>: a string is cut and extended; a list is cut, and cannot be
  joined with a string; a dictionary cannot be sliced.
\<close>

fun truncate_200 :: "json \<Rightarrow> py_error + json" where
  "truncate_200 (JStr s) = Inr (JStr (take 200 s @ ''...''))"
| "truncate_200 (JList xs) =
     Inl (TypeError (''can only concatenate list (not '' @ [CHR 0x22] @ ''str'' @ [CHR 0x22]
                     @ '') to list''))"
| "truncate_200 (JDict d) = Inl (TypeError (''unhashable type: 'slice'' @ [CHR 0x27]))"
| "truncate_200 x = Inl (TypeError ([CHR 0x27] @ type_name x @ ''' object is not subscriptable''))"

text \<open>
  Keys of a \<^verbatim>\<open>Counter\<close>. Lists and dictionaries are not hashable. Two hashable values
  are the same key when they are equal in Python: \<^verbatim>\<open>True == 1\<close> and
  \<^verbatim>\<open>False == 0\<close>, otherwise only a value and itself. \<open>key_norm\<close> maps equal keys
  to one value.
\<close>

fun hashable :: "json \<Rightarrow> bool" where
  "hashable (JList _) = False"
| "hashable (JDict _) = False"
| "hashable _ = True"

fun key_norm :: "json \<Rightarrow> json" where
  "key_norm (JBool b) = JInt (if b then 1 else 0)"
| "key_norm x = x"

text \<open>
  \<^verbatim>\<open>Counter(iterable)\<close>: for each element in turn,
  \<^verbatim>\<open>self[elem] = self.get(elem, 0) + 1\<close>. A key met again keeps its place and its
  first spelling; a new key goes last.
\<close>

fun counter_add :: "(json \<times> nat) list \<Rightarrow> json \<Rightarrow> (json \<times> nat) list" where
  "counter_add [] x = [(x, 1)]"
| "counter_add ((k, c) # kcs) x =
     (if key_norm k = key_norm x then (k, c + 1) # kcs else (k, c) # counter_add kcs x)"

fun count_elements :: "(json \<times> nat) list \<Rightarrow> json list \<Rightarrow> py_error + (json \<times> nat) list" where
  "count_elements acc [] = Inr acc"
| "count_elements acc (x # xs) =
     (if hashable x then count_elements (counter_add acc x) xs
      else Inl (TypeError (''unhashable type: '' @ [CHR 0x27] @ type_name x @ [CHR 0x27])))"

definition Counter :: "json list \<Rightarrow> py_error + (json \<times> nat) list" where
  "Counter xs = count_elements [] xs"

text \<open>
  \<^verbatim>\<open>most_common(n)\<close> is \<^verbatim>\<open>heapq.nlargest(n, self.items(), key=itemgetter(1))\<close>,
  which the library documents as \<^verbatim>\<open>sorted(iterable, key=key, reverse=True)[:n]\<close>: a
  stable sort by falling count, of which the first \<open>n\<close> are kept.
\<close>

definition most_common :: "nat \<Rightarrow> (json \<times> nat) list \<Rightarrow> (json \<times> nat) list" where
  "most_common n items = take n (sort_key (\<lambda>kc. - int (snd kc)) items)"

text \<open>\<^verbatim>\<open>sentiments.count('positive')\<close>: the elements equal to the given string.\<close>

definition count_str :: "json list \<Rightarrow> string \<Rightarrow> nat" where
  "count_str xs s = length (filter (\<lambda>x. x = JStr s) xs)"

section \<open>The remote model and the analyzer object\<close>

text \<open>
  \<^verbatim>\<open>ReviewAnalyzer.__init__\<close> stores the model name and the temperature (a float, kept
  as its exact value); the defaults are \<^verbatim>\<open>"gpt-3.5-turbo"\<close> and \<^verbatim>\<open>0.3\<close>.
\<close>

record analyzer =
  model :: string
  temperature :: rat

text \<open>The aggregate \<^verbatim>\<open>summary_data\<close> that \<^verbatim>\<open>generate_summary\<close> puts into its prompt.\<close>

record summary_data =
  sd_total_reviews :: nat
  sd_sentiment_breakdown :: "(json \<times> nat) list"
  sd_average_score :: pynum
  sd_common_points :: "json list"
  sd_common_emotions :: "json list"

text \<open>
  The two prompts are fixed templates with values interpolated. A prompt is kept as the
  template's name with the interpolated values: the review for the first, the aggregate
  and the sample texts for the second (their rendering by \<^verbatim>\<open>json.dumps\<close> into the
  text is not unfolded).
\<close>

datatype prompt =
    SentimentPrompt string
  | SummaryPrompt summary_data "json list"

record chat_request =
  rq_model :: string
  rq_system :: string
  rq_user :: prompt
  rq_temperature :: rat

text \<open>
  \<^verbatim>\<open>self.client.chat.completions.create(...)\<close> followed by
  \<^verbatim>\<open>response.choices[0].message.content\<close>: the remote service is a state machine over
  some state \<open>'w\<close>; a call either raises or yields the text of the reply, and moves
  the state. The same request may be answered differently at different times.
  \<^verbatim>\<open>json.loads\<close> is a parameter as well: it raises or returns the parsed value.
\<close>

type_synonym 'w chat_client = "'w \<Rightarrow> chat_request \<Rightarrow> (py_error + string) \<times> 'w"

type_synonym json_loads = "string \<Rightarrow> py_error + json"

section \<open>analyze_sentiment and analyze_batch\<close>

definition sentiment_request :: "analyzer \<Rightarrow> string \<Rightarrow> chat_request" where
  "sentiment_request self review =
     \<lparr> rq_model = model self,
       rq_system = ''You are a sentiment analysis expert. Always respond with valid JSON.'',
       rq_user = SentimentPrompt review,
       rq_temperature = temperature self \<rparr>"

text \<open>The dictionary returned by the \<^verbatim>\<open>except Exception as e\<close> branch.\<close>

definition fallback_record :: "string \<Rightarrow> py_error \<Rightarrow> pydict" where
  "fallback_record review e =
     [(''sentiment'', JStr ''neutral''),
      (''score'', JInt 3),
      (''key_points'', JList []),
      (''emotions'', JList []),
      (''review'', JStr review),
      (''error'', JStr (err_text e))]"

text \<open>
  The body of the \<^verbatim>\<open>try\<close> block after the call: parse the reply, attach the review.
  Whatever is raised in it reaches the handler.
\<close>

definition parse_and_attach :: "json_loads \<Rightarrow> string \<Rightarrow> string \<Rightarrow> py_error + pydict" where
  "parse_and_attach loads review content =
     (case loads content of
        Inl e \<Rightarrow> Inl e
      | Inr result \<Rightarrow> setitem result ''review'' (JStr review))"

definition analyze_sentiment ::
  "json_loads \<Rightarrow> analyzer \<Rightarrow> 'w chat_client \<Rightarrow> 'w \<Rightarrow> string \<Rightarrow> pydict \<times> 'w" where
  "analyze_sentiment loads self client w review =
     (case client w (sentiment_request self review) of
        (response, w') \<Rightarrow>
          (case (case response of Inl e \<Rightarrow> Inl e
                 | Inr content \<Rightarrow> parse_and_attach loads review content) of
             Inr result \<Rightarrow> (result, w')
           | Inl e \<Rightarrow> (fallback_record review e, w')))"

text \<open>
  The loop of \<^verbatim>\<open>analyze_batch\<close>, with the list \<^verbatim>\<open>results\<close> it appends to. The
  progress lines it prints when \<^verbatim>\<open>verbose\<close> is set are not part of the model.
\<close>

fun analyze_batch_loop ::
  "json_loads \<Rightarrow> analyzer \<Rightarrow> 'w chat_client \<Rightarrow> 'w \<Rightarrow> pydict list \<Rightarrow> string list
     \<Rightarrow> pydict list \<times> 'w" where
  "analyze_batch_loop loads self client w results [] = (results, w)"
| "analyze_batch_loop loads self client w results (review # reviews) =
     (case analyze_sentiment loads self client w review of
        (result, w') \<Rightarrow> analyze_batch_loop loads self client w' (results @ [result]) reviews)"

definition analyze_batch ::
  "json_loads \<Rightarrow> analyzer \<Rightarrow> 'w chat_client \<Rightarrow> 'w \<Rightarrow> string list \<Rightarrow> pydict list \<times> 'w" where
  "analyze_batch loads self client w reviews = analyze_batch_loop loads self client w [] reviews"

text \<open>
  A client that answers each request by a fixed function and keeps the list of the
  requests it has received, in the order received.
\<close>

definition recording_client :: "(chat_request \<Rightarrow> py_error + string) \<Rightarrow> chat_request list chat_client" where
  "recording_client answer seen rq = (answer rq, seen @ [rq])"

section \<open>generate_summary and generate_report\<close>

text \<open>
  The loop that gathers \<^verbatim>\<open>all_key_points\<close> and \<^verbatim>\<open>all_emotions\<close>: each record
  extends both lists, a missing key giving the empty list.
\<close>

fun gather :: "json list \<Rightarrow> json list \<Rightarrow> pydict list \<Rightarrow> py_error + json list \<times> json list" where
  "gather all_key_points all_emotions [] = Inr (all_key_points, all_emotions)"
| "gather all_key_points all_emotions (r # rs) =
     then_do (py_iter (get_default r ''key_points'' (JList []))) (\<lambda>ks.
     then_do (py_iter (get_default r ''emotions'' (JList []))) (\<lambda>es.
     gather (all_key_points @ ks) (all_emotions @ es) rs))"

text \<open>\<^verbatim>\<open>sum(scores) / len(scores) if scores else 0\<close>.\<close>

definition average_score :: "json list \<Rightarrow> py_error + pynum" where
  "average_score scores =
     (if scores \<noteq> []
      then then_do (py_sum 0 scores) (\<lambda>s.
           then_do (int_truediv s (int (length scores))) (\<lambda>q. Inr (PyFloat q)))
      else Inr (PyInt 0))"

text \<open>
  One sample of the prompt:
  \<^verbatim>\<open>r['review'][:200] + '...' if len(r['review']) > 200 else r['review']\<close>.
\<close>

definition review_sample :: "pydict \<Rightarrow> py_error + json" where
  "review_sample r =
     then_do (getitem r ''review'') (\<lambda>v.
     then_do (py_len v) (\<lambda>n.
     if 200 < n then truncate_200 v else Inr v))"

text \<open>
  Everything \<^verbatim>\<open>generate_summary\<close> computes before its \<^verbatim>\<open>try\<close> block, in the order of
  the source: the two comprehensions, the gathering loop, the entries of
  \<^verbatim>\<open>summary_data\<close>, the samples of the first five records. An exception raised here
  is not caught.
\<close>

definition summary_inputs :: "pydict list \<Rightarrow> py_error + summary_data \<times> json list" where
  "summary_inputs analysis_results =
     then_do (comprehension (\<lambda>r. getitem r ''sentiment'') analysis_results) (\<lambda>sentiments.
     then_do (comprehension (\<lambda>r. getitem r ''score'') analysis_results) (\<lambda>scores.
     then_do (gather [] [] analysis_results) (\<lambda>(all_key_points, all_emotions).
     then_do (Counter sentiments) (\<lambda>breakdown.
     then_do (average_score scores) (\<lambda>avg.
     then_do (Counter all_key_points) (\<lambda>points.
     then_do (Counter all_emotions) (\<lambda>emotions.
     then_do (comprehension review_sample (take 5 analysis_results)) (\<lambda>samples.
     Inr (\<lparr> sd_total_reviews = length analysis_results,
            sd_sentiment_breakdown = breakdown,
            sd_average_score = avg,
            sd_common_points = map fst (most_common 10 points),
            sd_common_emotions = map fst (most_common 5 emotions) \<rparr>,
          samples)))))))))"

definition summary_request :: "analyzer \<Rightarrow> summary_data \<Rightarrow> json list \<Rightarrow> chat_request" where
  "summary_request self summary_data samples =
     \<lparr> rq_model = model self,
       rq_system = ''You are a business analyst expert at summarizing customer feedback.'',
       rq_user = SummaryPrompt summary_data samples,
       rq_temperature = 1 / 2 \<rparr>"

definition generate_summary ::
  "analyzer \<Rightarrow> 'w chat_client \<Rightarrow> 'w \<Rightarrow> pydict list \<Rightarrow> (py_error + string) \<times> 'w" where
  "generate_summary self client w analysis_results =
     (case summary_inputs analysis_results of
        Inl e \<Rightarrow> (Inl e, w)
      | Inr (summary_data, samples) \<Rightarrow>
          (case client w (summary_request self summary_data samples) of
             (Inr content, w') \<Rightarrow> (Inr content, w')
           | (Inl e, w') \<Rightarrow> (Inr (''Error generating summary: '' @ err_text e), w')))"

record report =
  total_reviews :: nat
  sentiment_distribution :: "(json \<times> nat) list"
  average_rating :: pynum
  positive_percentage :: pyfloat
  negative_percentage :: pyfloat
  neutral_percentage :: pyfloat
  summary :: string
  detailed_results :: "pydict list"

text \<open>\<^verbatim>\<open>round(sum(scores) / len(scores), 2) if scores else 0\<close>.\<close>

definition rating :: "json list \<Rightarrow> py_error + pynum" where
  "rating scores =
     (if scores \<noteq> []
      then then_do (py_sum 0 scores) (\<lambda>s.
           then_do (int_truediv s (int (length scores))) (\<lambda>q.
           then_do (py_round q 2) (\<lambda>r. Inr (PyFloat r))))
      else Inr (PyInt 0))"

text \<open>\<^verbatim>\<open>round((sentiments.count(label) / len(sentiments)) * 100, 1)\<close>.\<close>

definition percentage :: "json list \<Rightarrow> string \<Rightarrow> py_error + pyfloat" where
  "percentage sentiments label =
     then_do (int_truediv (int (count_str sentiments label)) (int (length sentiments))) (\<lambda>q.
     py_round (float_mul q (Finite 100)) 1)"

text \<open>
  The entries of the report that come before the summary, in the order they are
  written in the dictionary of \<^verbatim>\<open>generate_report\<close>.
\<close>

definition report_statistics ::
  "pydict list \<Rightarrow> py_error + (json \<times> nat) list \<times> pynum \<times> pyfloat \<times> pyfloat \<times> pyfloat" where
  "report_statistics analysis_results =
     then_do (comprehension (\<lambda>r. getitem r ''sentiment'') analysis_results) (\<lambda>sentiments.
     then_do (comprehension (\<lambda>r. getitem r ''score'') analysis_results) (\<lambda>scores.
     then_do (Counter sentiments) (\<lambda>distribution.
     then_do (rating scores) (\<lambda>avg.
     then_do (percentage sentiments ''positive'') (\<lambda>pos.
     then_do (percentage sentiments ''negative'') (\<lambda>neg.
     then_do (percentage sentiments ''neutral'') (\<lambda>neu.
     Inr (distribution, avg, pos, neg, neu))))))))"

text \<open>
  \<^verbatim>\<open>generate_report\<close>: the summary is requested only after the three percentages
  have been computed, and the records are passed on as they came.
\<close>

definition generate_report ::
  "analyzer \<Rightarrow> 'w chat_client \<Rightarrow> 'w \<Rightarrow> pydict list \<Rightarrow> (py_error + report) \<times> 'w" where
  "generate_report self client w analysis_results =
     (case report_statistics analysis_results of
        Inl e \<Rightarrow> (Inl e, w)
      | Inr (distribution, avg, pos, neg, neu) \<Rightarrow>
          (case generate_summary self client w analysis_results of
             (Inl e, w') \<Rightarrow> (Inl e, w')
           | (Inr summary_text, w') \<Rightarrow>
               (Inr \<lparr> total_reviews = length analysis_results,
                      sentiment_distribution = distribution,
                      average_rating = avg,
                      positive_percentage = pos,
                      negative_percentage = neg,
                      neutral_percentage = neu,
                      summary = summary_text,
                      detailed_results = analysis_results \<rparr>,
                w')))"

section \<open>Concrete clients, parsers and records\<close>

text \<open>
  The analyzer with the default arguments of \<^verbatim>\<open>__init__\<close>; the temperature is
  the float nearest to \<^verbatim>\<open>0.3\<close>.
\<close>

definition default_analyzer :: analyzer where
  "default_analyzer =
     \<lparr> model = ''gpt-3.5-turbo'', temperature = 5404319552844595 / 18014398509481984 \<rparr>"

text \<open>A stateless service that answers every request with one text, or always raises.\<close>

definition replying_client :: "string \<Rightarrow> unit chat_client" where
  "replying_client content w rq = (Inr content, w)"

definition failing_client :: "py_error \<Rightarrow> unit chat_client" where
  "failing_client e w rq = (Inl e, w)"

definition always_reply :: "string \<Rightarrow> chat_request \<Rightarrow> py_error + string" where
  "always_reply content rq = Inr content"

text \<open>A \<^verbatim>\<open>json.loads\<close> under which the reply parses to a given value, or fails.\<close>

definition parses_to :: "json \<Rightarrow> json_loads" where
  "parses_to v content = Inr v"

definition parse_fails :: "py_error \<Rightarrow> json_loads" where
  "parse_fails e content = Inl e"

definition connection_error :: py_error where
  "connection_error = PyError ''APIConnectionError'' ''Connection error.''"

text \<open>An exception raised without a message: \<^verbatim>\<open>str(e)\<close> is the empty string.\<close>

definition bare_exception :: py_error where
  "bare_exception = PyError ''Exception'' ''''"

definition decode_error :: py_error where
  "decode_error = PyError ''JSONDecodeError'' ''Expecting value: line 1 column 1 (char 0)''"

text \<open>A reply that is a JSON object and has a key \<^verbatim>\<open>error\<close> of its own.\<close>

definition reply_with_error_key :: json where
  "reply_with_error_key =
     JDict [(''sentiment'', JStr ''positive''), (''score'', JInt 5),
            (''key_points'', JList []), (''emotions'', JList []),
            (''error'', JStr ''none'')]"

text \<open>Whether a dictionary has a key.\<close>

definition has_key :: "pydict \<Rightarrow> string \<Rightarrow> bool" where
  "has_key d k = (map_of d k \<noteq> None)"

text \<open>Whether a parsed value is a JSON object.\<close>

fun is_object :: "json \<Rightarrow> bool" where
  "is_object (JDict _) = True"
| "is_object _ = False"

text \<open>The analyzer of \<^verbatim>\<open>test_analyzer_custom_settings\<close>: model \<^verbatim>\<open>gpt-4\<close>, temperature 0.5.\<close>

definition custom_analyzer :: analyzer where
  "custom_analyzer = \<lparr> model = ''gpt-4'', temperature = 1 / 2 \<rparr>"

text \<open>The temperatures of the requests a list of requests carries.\<close>

definition temperatures :: "chat_request list \<Rightarrow> rat list" where
  "temperatures rqs = map rq_temperature rqs"

text \<open>
  The record shape of the data model: a string under \<^verbatim>\<open>sentiment\<close>, an integer from
  1 to 5 under \<^verbatim>\<open>score\<close>, a string under \<^verbatim>\<open>review\<close>, and under \<^verbatim>\<open>key_points\<close>
  and \<^verbatim>\<open>emotions\<close>, when the key is there, a list of hashable values (strings, in
  the data model).
\<close>

fun is_string :: "json \<Rightarrow> bool" where
  "is_string (JStr _) = True"
| "is_string _ = False"

fun is_score :: "json \<Rightarrow> bool" where
  "is_score (JInt n) = (1 \<le> n \<and> n \<le> 5)"
| "is_score _ = False"

fun is_hashable_list :: "json \<Rightarrow> bool" where
  "is_hashable_list (JList xs) = list_all hashable xs"
| "is_hashable_list _ = False"

definition sentiment_record :: "pydict \<Rightarrow> bool" where
  "sentiment_record r =
     ((case map_of r ''sentiment'' of Some v \<Rightarrow> is_string v | None \<Rightarrow> False)
      \<and> (case map_of r ''score'' of Some v \<Rightarrow> is_score v | None \<Rightarrow> False)
      \<and> (case map_of r ''review'' of Some v \<Rightarrow> is_string v | None \<Rightarrow> False)
      \<and> (case map_of r ''key_points'' of Some v \<Rightarrow> is_hashable_list v | None \<Rightarrow> True)
      \<and> (case map_of r ''emotions'' of Some v \<Rightarrow> is_hashable_list v | None \<Rightarrow> True))"

text \<open>The fields of a record, read without raising.\<close>

definition sentiment_of :: "pydict \<Rightarrow> json" where
  "sentiment_of r = get_default r ''sentiment'' JNull"

definition score_of :: "pydict \<Rightarrow> int" where
  "score_of r = (case map_of r ''score'' of Some (JInt n) \<Rightarrow> n | _ \<Rightarrow> 0)"

definition items_of :: "string \<Rightarrow> pydict \<Rightarrow> json list" where
  "items_of k r = (case map_of r k of Some (JList xs) \<Rightarrow> xs | _ \<Rightarrow> [])"

text \<open>The records of \<^verbatim>\<open>test_sentiment_percentages\<close> and of \<^verbatim>\<open>test_generate_report_structure\<close>.\<close>

definition percentage_test_records :: "pydict list" where
  "percentage_test_records =
     [[(''sentiment'', JStr ''positive''), (''score'', JInt 5), (''review'', JStr ''Great!'')],
      [(''sentiment'', JStr ''positive''), (''score'', JInt 4), (''review'', JStr ''Good'')],
      [(''sentiment'', JStr ''negative''), (''score'', JInt 2), (''review'', JStr ''Bad'')],
      [(''sentiment'', JStr ''neutral''), (''score'', JInt 3), (''review'', JStr ''OK'')]]"


text \<open>
  The text of a reply that is a JSON object with a key \<^verbatim>\<open>error\<close> of its own: the
  four keys asked for, in the order asked, then \<^verbatim>\<open>error\<close> with the string
  \<^verbatim>\<open>none\<close>; \<open>quoted\<close> puts a string between double quotes. It is the text that
  \<^verbatim>\<open>json.loads\<close> parses to \<open>reply_with_error_key\<close>.
\<close>

definition quoted :: "string \<Rightarrow> string" where
  "quoted s = [CHR 0x22] @ s @ [CHR 0x22]"

definition reply_with_error_key_text :: string where
  "reply_with_error_key_text =
     ''{'' @ quoted ''sentiment'' @ '': '' @ quoted ''positive'' @ '', ''
     @ quoted ''score'' @ '': 5, ''
     @ quoted ''key_points'' @ '': [], ''
     @ quoted ''emotions'' @ '': [], ''
     @ quoted ''error'' @ '': '' @ quoted ''none'' @ ''}''"

text \<open>
  Three records in which two key points and two emotions are equally frequent, so that
  the order of selection among equals can be seen.
\<close>

definition tie_records :: "pydict list" where
  "tie_records =
     [[(''sentiment'', JStr ''positive''), (''score'', JInt 4), (''review'', JStr ''Lasts long''),
       (''key_points'', JList [JStr ''battery'', JStr ''price'']),
       (''emotions'', JList [JStr ''happy''])],
      [(''sentiment'', JStr ''negative''), (''score'', JInt 2), (''review'', JStr ''Too dear''),
       (''key_points'', JList [JStr ''price'', JStr ''battery'']),
       (''emotions'', JList [JStr ''annoyed'', JStr ''happy''])],
      [(''sentiment'', JStr ''neutral''), (''score'', JInt 3), (''review'', JStr ''Fine''),
       (''key_points'', JList [JStr ''screen'']),
       (''emotions'', JList [])]]"

section \<open>The exact quantities the statistics are compared with\<close>

text \<open>
  The exact mean of a list of scores and the exact share of a label among the labels,
  as rational numbers: what the floats of the report approximate. They are used for
  non-empty lists only.
\<close>

definition mean_of :: "int list \<Rightarrow> rat" where
  "mean_of ns = of_int (sum_list ns) / of_int (int (length ns))"


section \<open>Frequency, first appearance and the order of selection\<close>

text \<open>
  How often an item occurs in a list and where it occurs first, items being the same
  when they are the same key of a \<^verbatim>\<open>Counter\<close>. An item \<open>a\<close> precedes an item \<open>b\<close>
  when it is more frequent, or equally frequent and met earlier.
\<close>

definition occurrences :: "json list \<Rightarrow> json \<Rightarrow> nat" where
  "occurrences xs x = length (filter (\<lambda>y. key_norm y = key_norm x) xs)"

definition first_index :: "json list \<Rightarrow> json \<Rightarrow> nat" where
  "first_index xs x = length (takeWhile (\<lambda>y. key_norm y \<noteq> key_norm x) xs)"

definition precedes :: "json list \<Rightarrow> json \<Rightarrow> json \<Rightarrow> bool" where
  "precedes xs a b =
     (occurrences xs b < occurrences xs a
      \<or> (occurrences xs a = occurrences xs b \<and> first_index xs a < first_index xs b))"

text \<open>
  \<open>selects n xs chosen\<close>: the list \<open>chosen\<close> is the selection of the \<open>n\<close> most
  frequent items of \<open>xs\<close>. It has \<open>n\<close> entries, or one for each distinct item when
  there are fewer than \<open>n\<close>; each entry is an item of \<open>xs\<close>, as spelled where it is
  first met; the entries are in the order of \<open>precedes\<close>, so no item is listed twice;
  and every item of \<open>xs\<close> left out comes after every entry in that order.
\<close>

definition selects :: "nat \<Rightarrow> json list \<Rightarrow> json list \<Rightarrow> bool" where
  "selects n xs chosen =
     (length chosen = min n (card (key_norm ` set xs))
      \<and> list_all (\<lambda>t. first_index xs t < length xs \<and> xs ! first_index xs t = t) chosen
      \<and> sorted_wrt (precedes xs) chosen
      \<and> list_all (\<lambda>x. key_norm x \<in> key_norm ` set chosen
                         \<or> list_all (\<lambda>t. precedes xs t x) chosen) xs)"

text \<open>The distinct items of a list, each as first met, in the order of first appearance.\<close>

fun first_seen :: "json list \<Rightarrow> json list" where
  "first_seen [] = []"
| "first_seen (x # xs) = x # filter (\<lambda>y. key_norm y \<noteq> key_norm x) (first_seen xs)"

section \<open>Properties of analyze_sentiment and analyze_batch\<close>

lemma setitem_review:
  "setitem v ''review'' x = Inr d \<Longrightarrow> map_of d ''review'' = Some x"
  by (cases v) (auto simp: AList.update_conv')

lemma setitem_not_object:
  "\<not> is_object v \<Longrightarrow> \<exists>msg. setitem v k x = Inl (TypeError msg) \<and> msg \<noteq> []"
  by (cases v) auto

lemma map_of_fallback_review:
  "map_of (fallback_record review e) ''review'' = Some (JStr review)"
  by (simp add: fallback_record_def)

lemma has_key_fallback: "has_key (fallback_record review e) ''error''"
  by (simp add: has_key_def fallback_record_def)

lemma has_key_update: "k \<noteq> k' \<Longrightarrow> has_key (AList.update k' x d) k = has_key d k"
  by (simp add: has_key_def AList.update_conv')

lemma analyze_sentiment_review:
  "map_of (fst (analyze_sentiment loads self client w review)) ''review'' = Some (JStr review)"
  by (auto simp: analyze_sentiment_def parse_and_attach_def map_of_fallback_review
      split: prod.splits sum.splits dest: setitem_review)

lemma analyze_sentiment_world:
  "snd (analyze_sentiment loads self client w review)
     = snd (client w (sentiment_request self review))"
  by (auto simp: analyze_sentiment_def split: prod.splits sum.splits)

lemma analyze_batch_loop_fst:
  "map (\<lambda>r. map_of r ''review'') (fst (analyze_batch_loop loads self client w results reviews))
     = map (\<lambda>r. map_of r ''review'') results @ map (\<lambda>s. Some (JStr s)) reviews"
proof (induction reviews arbitrary: w results)
  case Nil
  then show ?case by simp
next
  case (Cons review reviews)
  obtain result w' where step: "analyze_sentiment loads self client w review = (result, w')"
    by (cases "analyze_sentiment loads self client w review")
  have "map_of result ''review'' = Some (JStr review)"
    using analyze_sentiment_review [of loads self client w review] step by simp
  then show ?case using Cons.IH [of w' "results @ [result]"] step by simp
qed

lemma analyze_batch_loop_snd:
  "snd (analyze_batch_loop loads self client w results reviews)
     = foldl (\<lambda>w review. snd (client w (sentiment_request self review))) w reviews"
proof (induction reviews arbitrary: w results)
  case Nil
  then show ?case by simp
next
  case (Cons review reviews)
  obtain result w' where step: "analyze_sentiment loads self client w review = (result, w')"
    by (cases "analyze_sentiment loads self client w review")
  have "w' = snd (client w (sentiment_request self review))"
    using analyze_sentiment_world [of loads self client w review] step by simp
  then show ?case using Cons.IH [of w' "results @ [result]"] step by simp
qed

lemma foldl_recording:
  "foldl (\<lambda>w review. snd (recording_client answer w (f review))) seen reviews
     = seen @ map f reviews"
  by (induction reviews arbitrary: seen) (simp_all add: recording_client_def)

text \<open>
  Claim C1. For every list of review strings (the empty one included), and whatever the
  remote service and the parser do, \<open>analyze_batch\<close> returns as many records as there
  are reviews, and the record at index \<open>i\<close> has the \<open>i\<close>-th review under its key
  \<^verbatim>\<open>review\<close>, on the success path and on the failure path alike. The reviews are
  processed one after the other in input order: the service ends in the state reached
  by one call per review from the left, and a service that records its requests has
  received exactly the requests of the reviews, in their order.
\<close>

theorem analyze_batch_keeps_reviews_in_order:
  "length (fst (analyze_batch loads self client w reviews)) = length reviews
   \<and> (\<forall>i < length reviews.
        map_of (fst (analyze_batch loads self client w reviews) ! i) ''review''
          = Some (JStr (reviews ! i)))
   \<and> snd (analyze_batch loads self client w reviews)
        = foldl (\<lambda>w review. snd (client w (sentiment_request self review))) w reviews
   \<and> snd (analyze_batch loads self (recording_client answer) [] reviews)
        = map (sentiment_request self) reviews"
proof -
  let ?out = "fst (analyze_batch loads self client w reviews)"
  have m: "map (\<lambda>r. map_of r ''review'') ?out = map (\<lambda>s. Some (JStr s)) reviews"
    using analyze_batch_loop_fst [of loads self client w "[]" reviews]
    by (simp add: analyze_batch_def)
  have len: "length ?out = length reviews"
    using arg_cong [OF m, of length] by simp
  have nth: "map_of (?out ! i) ''review'' = Some (JStr (reviews ! i))"
    if "i < length reviews" for i
  proof -
    have "map (\<lambda>r. map_of r ''review'') ?out ! i = map (\<lambda>s. Some (JStr s)) reviews ! i"
      by (simp only: m)
    then show ?thesis using that len by simp
  qed
  have w: "snd (analyze_batch loads self client w reviews)
        = foldl (\<lambda>w review. snd (client w (sentiment_request self review))) w reviews"
    by (simp add: analyze_batch_def analyze_batch_loop_snd)
  have r: "snd (analyze_batch loads self (recording_client answer) [] reviews)
        = map (sentiment_request self) reviews"
    by (simp add: analyze_batch_def analyze_batch_loop_snd foldl_recording)
  show ?thesis using len nth w r by blast
qed

theorem analyze_batch_keeps_reviews_in_order_witness:
  "(1::nat) < length [''Good product'', ''Bad quality'']
   \<and> map_of (fst (analyze_batch (parse_fails decode_error) default_analyzer
                (recording_client (always_reply ''Sure!'')) []
                [''Good product'', ''Bad quality'']) ! 1) ''review''
       = Some (JStr ''Bad quality'')"
  using analyze_batch_keeps_reviews_in_order [of "parse_fails decode_error" default_analyzer
      "recording_client (always_reply ''Sure!'')" "[]" "[''Good product'', ''Bad quality'']"
      "always_reply ''Sure!''"]
  by simp

text \<open>
  Claim C2, as amended. When the call of the remote service raises an exception \<open>e\<close>,
  or the reply fails to parse with an exception \<open>e\<close>, \<open>analyze_sentiment\<close> returns
  (it does not raise) the record with sentiment \<^verbatim>\<open>neutral\<close>, score 3, empty
  \<^verbatim>\<open>key_points\<close> and \<^verbatim>\<open>emotions\<close>, the review itself, and under \<^verbatim>\<open>error\<close> the
  text \<^verbatim>\<open>str(e)\<close>, which is not empty whenever the exception has a message. The
  service has been called once: it is left in the state after that one call.
\<close>

theorem analyze_sentiment_failure_gives_fallback:
  assumes "client w (sentiment_request self R) = (response, w')"
      and "response = Inl e \<or> (\<exists>content. response = Inr content \<and> loads content = Inl e)"
  shows "analyze_sentiment loads self client w R =
           ([(''sentiment'', JStr ''neutral''), (''score'', JInt 3), (''key_points'', JList []),
             (''emotions'', JList []), (''review'', JStr R), (''error'', JStr (err_text e))],
            w')
         \<and> (err_text e \<noteq> [] \<longrightarrow>
              (\<exists>msg. map_of (fst (analyze_sentiment loads self client w R)) ''error''
                        = Some (JStr msg) \<and> msg \<noteq> []))"
  using assms
  by (auto simp: analyze_sentiment_def parse_and_attach_def fallback_record_def)

theorem analyze_sentiment_failure_gives_fallback_witness:
  "failing_client connection_error () (sentiment_request default_analyzer ''Great product'')
     = (Inl connection_error, ())
   \<and> analyze_sentiment (parses_to JNull) default_analyzer (failing_client connection_error) ()
        ''Great product''
     = ([(''sentiment'', JStr ''neutral''), (''score'', JInt 3), (''key_points'', JList []),
         (''emotions'', JList []), (''review'', JStr ''Great product''),
         (''error'', JStr ''Connection error.'')], ())"
  using analyze_sentiment_failure_gives_fallback [of "failing_client connection_error" "()"
      default_analyzer "''Great product''" "Inl connection_error" "()" connection_error
      "parses_to JNull"]
  by (simp add: failing_client_def connection_error_def)

text \<open>
  Claim C2 as stated fails: an exception raised without a message is a failure of the
  call, and the record returned for it has the empty string under \<^verbatim>\<open>error\<close>.
\<close>

theorem error_text_may_be_empty:
  "failing_client bare_exception () (sentiment_request default_analyzer ''Great product'')
     = (Inl bare_exception, ())
   \<and> map_of (fst (analyze_sentiment (parses_to JNull) default_analyzer
                (failing_client bare_exception) () ''Great product'')) ''error''
     = Some (JStr '''')"
  by (simp add: analyze_sentiment_def failing_client_def bare_exception_def fallback_record_def)

text \<open>
  Claim C7, as amended. The record returned by \<open>analyze_sentiment\<close> has a key
  \<^verbatim>\<open>error\<close> exactly when the call raised, or the reply did not parse, or the parsed
  value is not a JSON object, or the parsed object has a key \<^verbatim>\<open>error\<close> of its own
  (the parsed object is returned as it is, with the review attached). So a reply that
  parses to an object without that key never yields a record with it.
\<close>

theorem error_key_iff_failed_or_replied:
  assumes "client w (sentiment_request self R) = (response, w')"
  shows "has_key (fst (analyze_sentiment loads self client w R)) ''error'' \<longleftrightarrow>
           (case response of
              Inl e \<Rightarrow> True
            | Inr content \<Rightarrow>
                (case loads content of
                   Inl e \<Rightarrow> True
                 | Inr v \<Rightarrow> (case v of JDict d \<Rightarrow> has_key d ''error'' | _ \<Rightarrow> True)))"
  using assms
  by (auto simp: analyze_sentiment_def parse_and_attach_def has_key_fallback has_key_update
      split: sum.splits json.splits)

theorem error_key_iff_failed_or_replied_witness:
  "replying_client ''{}'' () (sentiment_request default_analyzer ''Great product'')
     = (Inr ''{}'', ())
   \<and> \<not> has_key (fst (analyze_sentiment (parses_to (JDict [])) default_analyzer
                  (replying_client ''{}'') () ''Great product'')) ''error''"
  using error_key_iff_failed_or_replied [of "replying_client ''{}''" "()" default_analyzer
      "''Great product''" "Inr ''{}''" "()" "parses_to (JDict [])"]
  by (simp add: replying_client_def parses_to_def has_key_def)

text \<open>
  Claim C7 as stated fails: the call succeeds and the reply is the text of a JSON object
  that has the four keys asked for and a key \<^verbatim>\<open>error\<close> besides; it parses to that
  object, nothing has failed, and the record returned has the key \<^verbatim>\<open>error\<close>, the one
  the reply brought (and the sentiment of the reply, not the neutral default).
\<close>

theorem error_key_on_success:
  "replying_client reply_with_error_key_text ()
       (sentiment_request default_analyzer ''Great product'')
     = (Inr reply_with_error_key_text, ())
   \<and> parses_to reply_with_error_key reply_with_error_key_text = Inr reply_with_error_key
   \<and> is_object reply_with_error_key
   \<and> has_key (fst (analyze_sentiment (parses_to reply_with_error_key) default_analyzer
               (replying_client reply_with_error_key_text) () ''Great product'')) ''error''
   \<and> map_of (fst (analyze_sentiment (parses_to reply_with_error_key) default_analyzer
               (replying_client reply_with_error_key_text) () ''Great product'')) ''sentiment''
       = Some (JStr ''positive'')"
  by (simp add: analyze_sentiment_def parse_and_attach_def replying_client_def parses_to_def
      reply_with_error_key_def has_key_def)

text \<open>
  Claim C10. When the call succeeds and the reply parses, but the parsed value is not a
  JSON object (a list, a string, a number, a boolean, null), attaching the review raises
  a \<^verbatim>\<open>TypeError\<close> inside the \<^verbatim>\<open>try\<close> block, and \<open>analyze_sentiment\<close> returns,
  not the parsed value, but the record with sentiment \<^verbatim>\<open>neutral\<close>, score 3, empty
  \<^verbatim>\<open>key_points\<close> and \<^verbatim>\<open>emotions\<close>, the review itself, and under \<^verbatim>\<open>error\<close> the
  text of that error, which is not empty.
\<close>

theorem non_object_reply_gives_fallback:
  assumes "client w (sentiment_request self R) = (Inr content, w')"
      and "loads content = Inr v"
      and "\<not> is_object v"
  shows "\<exists>msg. msg \<noteq> [] \<and> setitem v ''review'' (JStr R) = Inl (TypeError msg)
           \<and> analyze_sentiment loads self client w R =
               ([(''sentiment'', JStr ''neutral''), (''score'', JInt 3),
                 (''key_points'', JList []), (''emotions'', JList []),
                 (''review'', JStr R), (''error'', JStr msg)], w')"
  using assms setitem_not_object [of v "''review''" "JStr R"]
  by (auto simp: analyze_sentiment_def parse_and_attach_def fallback_record_def TypeError_def)

theorem non_object_reply_gives_fallback_witness:
  "replying_client ''[1, 2]'' () (sentiment_request default_analyzer ''Great product'')
     = (Inr ''[1, 2]'', ())
   \<and> parses_to (JList [JInt 1, JInt 2]) ''[1, 2]'' = Inr (JList [JInt 1, JInt 2])
   \<and> \<not> is_object (JList [JInt 1, JInt 2])
   \<and> analyze_sentiment (parses_to (JList [JInt 1, JInt 2])) default_analyzer
        (replying_client ''[1, 2]'') () ''Great product''
     = ([(''sentiment'', JStr ''neutral''), (''score'', JInt 3),
         (''key_points'', JList []), (''emotions'', JList []),
         (''review'', JStr ''Great product''),
         (''error'', JStr ''list indices must be integers or slices, not str'')], ())"
  using non_object_reply_gives_fallback [of "replying_client ''[1, 2]''" "()" default_analyzer
      "''Great product''" "''[1, 2]''" "()" "parses_to (JList [JInt 1, JInt 2])"
      "JList [JInt 1, JInt 2]"]
  by (auto simp: replying_client_def parses_to_def TypeError_def)

section \<open>Floats: magnitude and error of the roundings\<close>

lemma round_half_even_near:
  "\<bar>of_int (round_half_even x) - x\<bar> \<le> (1 / 2 :: rat)"
proof -
  have "of_int \<lfloor>x\<rfloor> \<le> x" and "x < of_int \<lfloor>x\<rfloor> + 1" by linarith+
  then show ?thesis
    by (auto simp: round_half_even_def Let_def abs_le_iff)
qed

lemma round_half_even_abs:
  "\<bar>of_int (round_half_even x)\<bar> \<le> 2 * \<bar>x :: rat\<bar>"
proof (cases "round_half_even x = 0")
  case True
  then show ?thesis by simp
next
  case False
  then have "1 \<le> \<bar>round_half_even x\<bar>" by linarith
  then have "(1 :: rat) \<le> \<bar>of_int (round_half_even x)\<bar>"
    by (metis of_int_1 of_int_abs of_int_le_iff)
  with round_half_even_near [of x] show ?thesis by linarith
qed

lemma pow2_pos: "0 < pow2 k"
  by (simp add: pow2_def)

lemma round_to_double_abs: "\<bar>round_to_double q\<bar> \<le> 2 * \<bar>q\<bar>"
proof (cases "q = 0")
  case True
  then show ?thesis by (simp add: round_to_double_def)
next
  case False
  define u where "u = pow2 (max (floor_log2 \<bar>q\<bar>) (- 1022) - 52)"
  have u: "0 < u" by (simp add: u_def pow2_pos)
  have r: "round_to_double q = of_int (round_half_even (q / u)) * u"
    using False by (simp add: round_to_double_def Let_def u_def)
  have "\<bar>of_int (round_half_even (q / u)) * u\<bar> = \<bar>of_int (round_half_even (q / u)) :: rat\<bar> * u"
    using u by (simp add: abs_mult)
  also have "\<dots> \<le> (2 * \<bar>q / u\<bar>) * u"
    by (rule mult_right_mono [OF round_half_even_abs [of "q / u"]]) (use u in simp)
  also have "\<dots> = 2 * \<bar>q\<bar>" using u by (simp add: abs_divide)
  finally show ?thesis by (simp add: r)
qed

lemma in_range: "\<bar>q\<bar> \<le> 2 ^ 1000 \<Longrightarrow> \<not> out_of_range (round_to_double q)"
proof -
  assume a: "\<bar>q\<bar> \<le> 2 ^ 1000"
  have "\<bar>round_to_double q\<bar> \<le> 2 * \<bar>q\<bar>" by (rule round_to_double_abs)
  also have "\<dots> \<le> 2 * 2 ^ 1000" using a by simp
  also have "\<dots> < (2 ^ 1024 :: rat)" by simp
  finally show ?thesis by (simp add: out_of_range_def)
qed


lemma int_truediv_small:
  assumes "b \<noteq> 0" and "\<bar>of_int a / of_int b :: rat\<bar> \<le> 2 ^ 1000"
  shows "int_truediv a b = Inr (Finite (round_to_double (of_int a / of_int b)))"
  using assms in_range [of "of_int a / of_int b"] by (simp add: int_truediv_def Let_def)











section \<open>Lists of records of the data model\<close>

lemma then_do_Inr: "then_do (Inr x) f = f x"
  by (simp add: then_do_def)

lemma then_do_Inl: "then_do (Inl e) f = Inl e"
  by (simp add: then_do_def)

lemma then_do_Inr_iff:
  "then_do m f = Inr y \<longleftrightarrow> (\<exists>x. m = Inr x \<and> f x = Inr y)"
  by (cases m) (simp_all add: then_do_def)

lemma comprehension_total:
  "(\<And>x. x \<in> set xs \<Longrightarrow> f x = Inr (g x)) \<Longrightarrow> comprehension f xs = Inr (map g xs)"
  by (induction xs) (simp_all add: then_do_Inr)

lemma record_sentiment:
  "sentiment_record r \<Longrightarrow> getitem r ''sentiment'' = Inr (sentiment_of r)"
  by (auto simp: sentiment_record_def getitem_def sentiment_of_def get_default_def
      split: option.splits)

lemma record_sentiment_hashable:
  "sentiment_record r \<Longrightarrow> hashable (sentiment_of r)"
  by (auto simp: sentiment_record_def sentiment_of_def get_default_def
      split: option.splits elim: is_string.elims)

lemma record_score:
  "sentiment_record r \<Longrightarrow> getitem r ''score'' = Inr (JInt (score_of r))"
  by (auto simp: sentiment_record_def getitem_def score_of_def
      split: option.splits elim: is_score.elims)

lemma record_score_bounds:
  "sentiment_record r \<Longrightarrow> 1 \<le> score_of r \<and> score_of r \<le> 5"
  by (auto simp: sentiment_record_def score_of_def
      split: option.splits elim: is_score.elims)

lemma record_key_points:
  "sentiment_record r \<Longrightarrow>
     py_iter (get_default r ''key_points'' (JList [])) = Inr (items_of ''key_points'' r)
     \<and> list_all hashable (items_of ''key_points'' r)"
  by (auto simp: sentiment_record_def get_default_def items_of_def
      split: option.splits elim: is_hashable_list.elims)

lemma record_emotions:
  "sentiment_record r \<Longrightarrow>
     py_iter (get_default r ''emotions'' (JList [])) = Inr (items_of ''emotions'' r)
     \<and> list_all hashable (items_of ''emotions'' r)"
  by (auto simp: sentiment_record_def get_default_def items_of_def
      split: option.splits elim: is_hashable_list.elims)

lemma record_review_sample:
  "sentiment_record r \<Longrightarrow> \<exists>s. review_sample r = Inr (JStr s)"
  by (auto simp: sentiment_record_def review_sample_def getitem_def then_do_Inr
      split: option.splits elim!: is_string.elims)

lemma sentiments_of_records:
  "list_all sentiment_record rs \<Longrightarrow>
     comprehension (\<lambda>r. getitem r ''sentiment'') rs = Inr (map sentiment_of rs)"
  by (rule comprehension_total) (simp add: list_all_iff record_sentiment)

lemma scores_of_records:
  "list_all sentiment_record rs \<Longrightarrow>
     comprehension (\<lambda>r. getitem r ''score'') rs = Inr (map JInt (map score_of rs))"
  by (simp only: map_map, rule comprehension_total) (simp add: list_all_iff record_score)

lemma samples_of_records:
  "list_all sentiment_record rs \<Longrightarrow> \<exists>samples. comprehension review_sample rs = Inr samples"
proof (induction rs)
  case Nil
  then show ?case by simp
next
  case (Cons r rs)
  then obtain samples where "comprehension review_sample rs = Inr samples" by auto
  moreover from Cons.prems obtain s where "review_sample r = Inr (JStr s)"
    using record_review_sample by auto
  ultimately show ?case by (simp add: then_do_Inr)
qed

lemma gather_records:
  "list_all sentiment_record rs \<Longrightarrow>
     gather kps ems rs = Inr (kps @ concat (map (items_of ''key_points'') rs),
                              ems @ concat (map (items_of ''emotions'') rs))"
  by (induction rs arbitrary: kps ems) (simp_all add: record_key_points record_emotions then_do_Inr)

lemma count_elements_hashable:
  "list_all hashable xs \<Longrightarrow> count_elements acc xs = Inr (foldl counter_add acc xs)"
  by (induction xs arbitrary: acc) simp_all

lemma Counter_hashable:
  "list_all hashable xs \<Longrightarrow> Counter xs = Inr (foldl counter_add [] xs)"
  by (simp add: Counter_def count_elements_hashable)

lemma count_elements_Inr:
  "count_elements acc xs = Inr items \<Longrightarrow> items = foldl counter_add acc xs"
  by (induction xs arbitrary: acc) (auto split: if_splits)

lemma Counter_Inr: "Counter xs = Inr items \<Longrightarrow> items = foldl counter_add [] xs"
  unfolding Counter_def by (rule count_elements_Inr)

lemma py_sum_ints: "py_sum acc (map JInt ns) = Inr (acc + sum_list ns)"
  by (induction ns arbitrary: acc) simp_all

lemma sum_list_scores:
  "\<forall>n \<in> set ns. 1 \<le> n \<and> n \<le> (5 :: int) \<Longrightarrow>
     int (length ns) \<le> sum_list ns \<and> sum_list ns \<le> 5 * int (length ns)"
  by (induction ns) auto

lemma mean_of_scores:
  assumes "\<forall>n \<in> set ns. 1 \<le> n \<and> n \<le> (5 :: int)" and "ns \<noteq> []"
  shows "1 \<le> (of_int (sum_list ns) / of_int (int (length ns)) :: rat)
         \<and> (of_int (sum_list ns) / of_int (int (length ns)) :: rat) \<le> 5"
proof -
  have n: "(0 :: rat) < of_int (int (length ns))" using assms(2) by simp
  have "(of_int (int (length ns)) :: rat) \<le> of_int (sum_list ns)"
    and "(of_int (sum_list ns) :: rat) \<le> 5 * of_int (int (length ns))"
    using sum_list_scores [OF assms(1)] by (metis of_int_le_iff, metis of_int_le_iff of_int_mult of_int_numeral)
  then show ?thesis using n by (simp add: pos_le_divide_eq pos_divide_le_eq)
qed

lemma mean_of_bounds:
  assumes "\<forall>n \<in> set ns. 1 \<le> n \<and> n \<le> (5 :: int)" and "ns \<noteq> []"
  shows "1 \<le> mean_of ns \<and> mean_of ns \<le> 5"
  unfolding mean_of_def by (rule mean_of_scores [OF assms])

lemma int_truediv_mean:
  assumes "\<forall>n \<in> set ns. 1 \<le> n \<and> n \<le> (5 :: int)" and "ns \<noteq> []"
  shows "int_truediv (sum_list ns) (int (length ns)) = Inr (Finite (round_to_double (mean_of ns)))"
proof -
  have "\<bar>mean_of ns\<bar> \<le> 5" using mean_of_bounds [OF assms] by linarith
  also have "\<dots> \<le> 2 ^ 1000" by simp
  finally have "\<bar>of_int (sum_list ns) / of_int (int (length ns)) :: rat\<bar> \<le> 2 ^ 1000"
    unfolding mean_of_def .
  then show ?thesis
    unfolding mean_of_def using assms(2) by (intro int_truediv_small) simp_all
qed

lemma average_score_scores:
  assumes "\<forall>n \<in> set ns. 1 \<le> n \<and> n \<le> (5 :: int)" and "ns \<noteq> []"
  shows "average_score (map JInt ns) = Inr (PyFloat (Finite (round_to_double (mean_of ns))))"
  using assms(2) by (simp add: average_score_def py_sum_ints then_do_Inr int_truediv_mean [OF assms])




lemma score_list_bounds:
  "list_all sentiment_record rs \<Longrightarrow> \<forall>n \<in> set (map score_of rs). 1 \<le> n \<and> n \<le> 5"
  by (auto simp: list_all_iff record_score_bounds)


lemma sentiments_hashable:
  "list_all sentiment_record rs \<Longrightarrow> list_all hashable (map sentiment_of rs)"
  by (simp add: list_all_iff record_sentiment_hashable)

lemma key_points_hashable:
  "list_all sentiment_record rs \<Longrightarrow> list_all hashable (concat (map (items_of ''key_points'') rs))"
  by (induction rs) (simp_all add: record_key_points)

lemma emotions_hashable:
  "list_all sentiment_record rs \<Longrightarrow> list_all hashable (concat (map (items_of ''emotions'') rs))"
  by (induction rs) (simp_all add: record_emotions)

lemma average_score_records:
  "list_all sentiment_record rs \<Longrightarrow> \<exists>avg. average_score (map JInt (map score_of rs)) = Inr avg"
  using average_score_scores [OF score_list_bounds, of rs]
  by (cases "rs = []") (simp_all add: average_score_def)

lemma summary_inputs_records:
  assumes "list_all sentiment_record rs"
  shows "\<exists>avg samples. summary_inputs rs =
           Inr (\<lparr> sd_total_reviews = length rs,
                  sd_sentiment_breakdown = foldl counter_add [] (map sentiment_of rs),
                  sd_average_score = avg,
                  sd_common_points = map fst (most_common 10
                    (foldl counter_add [] (concat (map (items_of ''key_points'') rs)))),
                  sd_common_emotions = map fst (most_common 5
                    (foldl counter_add [] (concat (map (items_of ''emotions'') rs)))) \<rparr>,
                samples)"
proof -
  obtain avg where a: "average_score (map JInt (map score_of rs)) = Inr avg"
    using average_score_records [OF assms] by auto
  have "list_all sentiment_record (take 5 rs)"
    using assms by (auto simp: list_all_iff dest: in_set_takeD)
  then obtain samples where s: "comprehension review_sample (take 5 rs) = Inr samples"
    using samples_of_records by blast
  show ?thesis
    unfolding summary_inputs_def
    by (simp add: sentiments_of_records [OF assms] scores_of_records [OF assms]
        gather_records [OF assms] Counter_hashable [OF sentiments_hashable [OF assms]]
        Counter_hashable [OF key_points_hashable [OF assms]]
        Counter_hashable [OF emotions_hashable [OF assms]] a s then_do_Inr del: map_map)
qed


section \<open>What a Counter holds and what most_common selects\<close>

lemma occurrences_key:
  "key_norm a = key_norm b \<Longrightarrow> occurrences xs a = occurrences xs b"
  by (simp add: occurrences_def)

lemma first_index_key:
  "key_norm a = key_norm b \<Longrightarrow> first_index xs a = first_index xs b"
  by (simp add: first_index_def)

lemma precedes_key:
  "key_norm a = key_norm b \<Longrightarrow> precedes xs t a = precedes xs t b"
  by (simp add: precedes_def occurrences_key [of a b] first_index_key [of a b])

lemma first_seen_subset: "set (first_seen xs) \<subseteq> set xs"
  by (induction xs) auto

lemma first_seen_keys: "key_norm ` set (first_seen xs) = key_norm ` set xs"
proof (induction xs)
  case Nil
  then show ?case by simp
next
  case (Cons x xs)
  have "key_norm ` set (first_seen (x # xs))
        = insert (key_norm x) (key_norm ` set (first_seen xs) - {key_norm x})"
    by auto
  also have "\<dots> = insert (key_norm x) (key_norm ` set xs)"
    by (simp add: Cons.IH)
  finally show ?case by simp
qed

lemma first_seen_distinct: "distinct (map key_norm (first_seen xs))"
proof (induction xs)
  case Nil
  then show ?case by simp
next
  case (Cons x xs)
  have "distinct (map key_norm (filter (\<lambda>y. key_norm y \<noteq> key_norm x) (first_seen xs)))"
    using Cons.IH by (simp add: distinct_map_filter)
  then show ?case by auto
qed

lemma first_seen_first:
  "t \<in> set (first_seen xs) \<Longrightarrow> first_index xs t < length xs \<and> xs ! first_index xs t = t"
proof (induction xs)
  case Nil
  then show ?case by simp
next
  case (Cons x xs)
  show ?case
  proof (cases "t = x")
    case True
    then show ?thesis by (simp add: first_index_def)
  next
    case False
    with Cons.prems have t: "t \<in> set (first_seen xs)" and k: "key_norm t \<noteq> key_norm x" by auto
    have "first_index (x # xs) t = Suc (first_index xs t)"
      using k by (auto simp: first_index_def)
    then show ?thesis using Cons.IH [OF t] by simp
  qed
qed

lemma first_seen_sorted:
  "sorted_wrt (\<lambda>a b. first_index xs a < first_index xs b) (first_seen xs)"
proof (induction xs)
  case Nil
  then show ?case by simp
next
  case (Cons x xs)
  let ?ys = "filter (\<lambda>y. key_norm y \<noteq> key_norm x) (first_seen xs)"
  have s: "sorted_wrt (\<lambda>a b. first_index xs a < first_index xs b) ?ys"
    using Cons.IH by (rule sorted_wrt_filter)
  have i: "\<And>y. y \<in> set ?ys \<Longrightarrow> first_index (x # xs) y = Suc (first_index xs y)"
    by (auto simp: first_index_def)
  have "sorted_wrt (\<lambda>a b. first_index (x # xs) a < first_index (x # xs) b) ?ys"
    by (rule sorted_wrt_mono_rel [OF _ s]) (simp add: i)
  moreover have "first_index (x # xs) x = 0" by (simp add: first_index_def)
  ultimately show ?case by (simp add: i)
qed

lemma first_seen_snoc:
  "first_seen (xs @ [x])
   = (if key_norm x \<in> key_norm ` set xs then first_seen xs else first_seen xs @ [x])"
  by (induction xs) auto

lemma counter_add_map:
  "distinct (map key_norm ys) \<Longrightarrow>
     counter_add (map (\<lambda>y. (y, c y)) ys) x
     = (if key_norm x \<in> key_norm ` set ys
        then map (\<lambda>y. (y, if key_norm y = key_norm x then c y + 1 else c y)) ys
        else map (\<lambda>y. (y, c y)) ys @ [(x, 1)])"
proof (induction ys)
  case Nil
  then show ?case by simp
next
  case (Cons y ys)
  show ?case
  proof (cases "key_norm y = key_norm x")
    case True
    with Cons.prems have "\<forall>z \<in> set ys. key_norm z \<noteq> key_norm x" by (metis distinct.simps(2) image_eqI list.simps(9) set_map)
    then have "map (\<lambda>y. (y, if key_norm y = key_norm x then c y + 1 else c y)) ys
               = map (\<lambda>y. (y, c y)) ys"
      by (intro map_cong) auto
    with True show ?thesis by simp
  next
    case False
    with Cons show ?thesis by auto
  qed
qed

lemma occurrences_snoc:
  "occurrences (xs @ [x]) y = (if key_norm x = key_norm y then occurrences xs y + 1 else occurrences xs y)"
  by (simp add: occurrences_def)

lemma occurrences_fresh:
  "key_norm x \<notin> key_norm ` set xs \<Longrightarrow> occurrences xs x = 0"
  by (simp add: occurrences_def filter_empty_conv image_iff) metis

lemma foldl_counter_add:
  "foldl counter_add [] xs = map (\<lambda>x. (x, occurrences xs x)) (first_seen xs)"
proof (induction xs rule: rev_induct)
  case Nil
  then show ?case by simp
next
  case (snoc x xs)
  have step: "foldl counter_add [] (xs @ [x])
              = counter_add (map (\<lambda>y. (y, occurrences xs y)) (first_seen xs)) x"
    by (simp add: snoc.IH)
  show ?case
  proof (cases "key_norm x \<in> key_norm ` set xs")
    case True
    then have "key_norm x \<in> key_norm ` set (first_seen xs)" by (simp add: first_seen_keys)
    then have "foldl counter_add [] (xs @ [x])
               = map (\<lambda>y. (y, if key_norm y = key_norm x
                                then occurrences xs y + 1 else occurrences xs y)) (first_seen xs)"
      unfolding step by (simp add: counter_add_map [OF first_seen_distinct])
    also have "\<dots> = map (\<lambda>y. (y, occurrences (xs @ [x]) y)) (first_seen xs)"
      by (intro map_cong) (auto simp: occurrences_snoc)
    finally show ?thesis using True by (simp add: first_seen_snoc)
  next
    case False
    then have f: "key_norm x \<notin> key_norm ` set (first_seen xs)" by (simp add: first_seen_keys)
    have "foldl counter_add [] (xs @ [x])
          = map (\<lambda>y. (y, occurrences xs y)) (first_seen xs) @ [(x, 1)]"
      unfolding step using f by (simp add: counter_add_map [OF first_seen_distinct])
    also have "map (\<lambda>y. (y, occurrences xs y)) (first_seen xs)
               = map (\<lambda>y. (y, occurrences (xs @ [x]) y)) (first_seen xs)"
      using f by (intro map_cong) (auto simp: occurrences_snoc)
    finally show ?thesis
      using False by (simp add: first_seen_snoc occurrences_snoc occurrences_fresh)
  qed
qed

lemma insort_key_map:
  "insort_key f (g x) (map g xs) = map g (insort_key (\<lambda>y. f (g y)) x xs)"
  by (induction xs) simp_all

lemma sort_key_map:
  "sort_key f (map g xs) = map g (sort_key (\<lambda>y. f (g y)) xs)"
  by (induction xs) (simp_all add: insort_key_map)

lemma most_common_counted:
  "map fst (most_common n (map (\<lambda>x. (x, c x)) ys)) = take n (sort_key (\<lambda>x. - int (c x)) ys)"
  by (simp add: most_common_def sort_key_map take_map [symmetric] comp_def)

lemma insort_key_lex:
  assumes "sorted_wrt (\<lambda>a b. f a < f b \<or> (f a = f b \<and> R a b)) ys"
    and "\<forall>y \<in> set ys. R x y"
  shows "sorted_wrt (\<lambda>a b. f a < f b \<or> (f a = f b \<and> R a b)) (insort_key f x ys)"
  using assms
proof (induction ys)
  case Nil
  then show ?case by simp
next
  case (Cons y ys)
  show ?case
  proof (cases "f x \<le> f y")
    case True
    have "\<forall>z \<in> set (y # ys). f x < f z \<or> (f x = f z \<and> R x z)"
    proof
      fix z assume z: "z \<in> set (y # ys)"
      then have "f y \<le> f z" using Cons.prems(1) by auto
      with True have "f x \<le> f z" by simp
      moreover have "R x z" using Cons.prems(2) z by auto
      ultimately show "f x < f z \<or> (f x = f z \<and> R x z)" by auto
    qed
    with True Cons.prems(1) show ?thesis by simp
  next
    case False
    then have "f y < f x" by simp
    moreover have "sorted_wrt (\<lambda>a b. f a < f b \<or> (f a = f b \<and> R a b)) (insort_key f x ys)"
      using Cons by simp
    ultimately show ?thesis using False Cons.prems(1) by (auto simp: set_insort_key)
  qed
qed

lemma sort_key_lex:
  "sorted_wrt R xs \<Longrightarrow>
     sorted_wrt (\<lambda>a b. f a < f b \<or> (f a = f b \<and> R a b)) (sort_key f xs)"
  by (induction xs) (simp_all add: insort_key_lex)

lemma ranking_sorted:
  "sorted_wrt (precedes xs) (sort_key (\<lambda>x. - int (occurrences xs x)) (first_seen xs))"
proof -
  have "sorted_wrt (\<lambda>a b. - int (occurrences xs a) < - int (occurrences xs b)
          \<or> (- int (occurrences xs a) = - int (occurrences xs b)
              \<and> first_index xs a < first_index xs b))
        (sort_key (\<lambda>x. - int (occurrences xs x)) (first_seen xs))"
    by (rule sort_key_lex [OF first_seen_sorted])
  then show ?thesis
    by (rule sorted_wrt_mono_rel [rotated]) (auto simp: precedes_def)
qed

lemma ranking_selects:
  "selects n xs (take n (sort_key (\<lambda>x. - int (occurrences xs x)) (first_seen xs)))"
proof -
  define rk where "rk = sort_key (\<lambda>x. - int (occurrences xs x)) (first_seen xs)"
  have set_rk: "set rk = set (first_seen xs)" by (simp add: rk_def)
  have "length rk = length (map key_norm (first_seen xs))" by (simp add: rk_def)
  also have "\<dots> = card (set (map key_norm (first_seen xs)))"
    by (rule distinct_card [symmetric]) (rule first_seen_distinct)
  also have "\<dots> = card (key_norm ` set xs)" by (simp add: first_seen_keys)
  finally have len: "length (take n rk) = min n (card (key_norm ` set xs))" by (simp add: min.commute)
  have first: "list_all (\<lambda>t. first_index xs t < length xs \<and> xs ! first_index xs t = t) (take n rk)"
    unfolding list_all_iff
  proof
    fix t assume "t \<in> set (take n rk)"
    then have "t \<in> set (first_seen xs)" using set_rk by (auto dest: in_set_takeD)
    then show "first_index xs t < length xs \<and> xs ! first_index xs t = t"
      by (rule first_seen_first)
  qed
  have srt: "sorted_wrt (precedes xs) rk" unfolding rk_def by (rule ranking_sorted)
  then have "sorted_wrt (precedes xs) (take n rk @ drop n rk)" by simp
  then have split: "\<forall>t \<in> set (take n rk). \<forall>r \<in> set (drop n rk). precedes xs t r"
    unfolding sorted_wrt_append by blast
  have srt_take: "sorted_wrt (precedes xs) (take n rk)"
    using srt by (rule sorted_wrt_take)
  have rest: "list_all (\<lambda>x. key_norm x \<in> key_norm ` set (take n rk)
                \<or> list_all (\<lambda>t. precedes xs t x) (take n rk)) xs"
    unfolding list_all_iff
  proof (intro ballI)
    fix x assume x: "x \<in> set xs"
    show "key_norm x \<in> key_norm ` set (take n rk) \<or> (\<forall>t \<in> set (take n rk). precedes xs t x)"
    proof (cases "key_norm x \<in> key_norm ` set (take n rk)")
      case True
      then show ?thesis by simp
    next
      case False
      from x have "key_norm x \<in> key_norm ` set (first_seen xs)" by (simp add: first_seen_keys)
      then obtain r where r: "r \<in> set rk" and k: "key_norm r = key_norm x"
        using set_rk by auto
      have "r \<notin> set (take n rk)" using False k by (metis image_eqI)
      moreover have "set rk = set (take n rk) \<union> set (drop n rk)"
        by (metis append_take_drop_id set_append)
      ultimately have "r \<in> set (drop n rk)" using r by auto
      then have "\<forall>t \<in> set (take n rk). precedes xs t r" using split by blast
      then have "\<forall>t \<in> set (take n rk). precedes xs t x" by (simp add: precedes_key [OF k])
      then show ?thesis by simp
    qed
  qed
  show ?thesis
    unfolding selects_def rk_def [symmetric] using len first srt_take rest by simp
qed

lemma Counter_most_common:
  "map fst (most_common n (foldl counter_add [] xs))
   = take n (sort_key (\<lambda>x. - int (occurrences xs x)) (first_seen xs))"
  by (simp only: foldl_counter_add most_common_counted)

lemma most_common_selects:
  "selects n xs (map fst (most_common n (foldl counter_add [] xs)))"
  by (simp only: Counter_most_common ranking_selects)

lemma summary_inputs_selects:
  assumes "summary_inputs rs = Inr (sd, samples)"
  shows "\<exists>pts ems. gather [] [] rs = Inr (pts, ems)
           \<and> selects 10 pts (sd_common_points sd)
           \<and> selects 5 ems (sd_common_emotions sd)"
proof -
  from assms obtain pts ems points emotions where
    g: "gather [] [] rs = Inr (pts, ems)" and
    p: "Counter pts = Inr points" and
    e: "Counter ems = Inr emotions" and
    cp: "sd_common_points sd = map fst (most_common 10 points)" and
    ce: "sd_common_emotions sd = map fst (most_common 5 emotions)"
    by (auto simp: summary_inputs_def then_do_Inr_iff split: prod.splits)
  show ?thesis
    using g cp ce by (simp add: Counter_Inr [OF p] Counter_Inr [OF e] most_common_selects)
qed

section \<open>The test records and their statistics\<close>










lemma percentage_test_records_ok: "list_all sentiment_record percentage_test_records"
  by (simp add: percentage_test_records_def sentiment_record_def)


lemma tie_records_ok: "list_all sentiment_record tie_records"
  by (simp add: tie_records_def sentiment_record_def)




lemma tie_records_items:
  "concat (map (items_of ''key_points'') tie_records)
     = [JStr ''battery'', JStr ''price'', JStr ''price'', JStr ''battery'', JStr ''screen'']
   \<and> concat (map (items_of ''emotions'') tie_records)
     = [JStr ''happy'', JStr ''annoyed'', JStr ''happy'']"
  by (simp add: tie_records_def items_of_def)

lemma tie_records_counted:
  "map fst (most_common 10 (foldl counter_add []
      [JStr ''battery'', JStr ''price'', JStr ''price'', JStr ''battery'', JStr ''screen'']))
     = [JStr ''battery'', JStr ''price'', JStr ''screen'']
   \<and> map fst (most_common 5 (foldl counter_add []
      [JStr ''happy'', JStr ''annoyed'', JStr ''happy'']))
     = [JStr ''happy'', JStr ''annoyed'']"
  by (simp add: most_common_def)

section \<open>Properties of generate_summary and generate_report\<close>

lemma analyze_sentiment_recorded:
  "snd (analyze_sentiment loads self (recording_client answer) seen R)
   = seen @ [sentiment_request self R]"
  by (auto simp: analyze_sentiment_def recording_client_def split: prod.splits sum.splits)

lemma generate_summary_recorded:
  "snd (generate_summary self (recording_client answer) seen rs) =
     (case summary_inputs rs of Inl e \<Rightarrow> seen
      | Inr (sd, samples) \<Rightarrow> seen @ [summary_request self sd samples])"
  by (auto simp: generate_summary_def recording_client_def split: prod.splits sum.splits)






text \<open>
  Claim C9, as amended. The request that \<open>generate_summary\<close> sends carries the
  temperature 0.5 whatever the analyzer is configured with, and the request that
  \<open>analyze_sentiment\<close> sends carries the configured temperature: a service that records
  its requests has received exactly one request with that temperature from each (none
  from \<open>generate_summary\<close> when it raised before its call). The summary temperature is
  strictly higher than the extractor's exactly when the configured temperature is below
  0.5.
\<close>

theorem summary_temperature_is_fixed:
  "temperatures (snd (generate_summary self (recording_client answer) [] rs))
     = (case summary_inputs rs of Inl e \<Rightarrow> [] | Inr inputs \<Rightarrow> [1 / 2])
   \<and> temperatures (snd (analyze_sentiment loads self (recording_client answer') [] R))
     = [temperature self]
   \<and> rq_temperature (summary_request self sd samples) = 1 / 2
   \<and> (rq_temperature (sentiment_request self R) < rq_temperature (summary_request self sd samples)
        \<longleftrightarrow> temperature self < 1 / 2)"
  by (auto simp: temperatures_def analyze_sentiment_recorded generate_summary_recorded
      summary_request_def sentiment_request_def split: sum.splits)

text \<open>With the default temperature, the float 0.3, the summary temperature is the higher.\<close>

theorem summary_temperature_is_fixed_witness:
  "temperatures (snd (generate_summary default_analyzer
        (recording_client (always_reply ''Summary'')) [] percentage_test_records)) = [1 / 2]
   \<and> temperatures (snd (analyze_sentiment (parses_to (JDict [])) default_analyzer
        (recording_client (always_reply ''{}'')) [] ''Great product''))
       = [5404319552844595 / 18014398509481984]
   \<and> (5404319552844595 / 18014398509481984 :: rat) < 1 / 2"
proof -
  from summary_inputs_records [OF percentage_test_records_ok] obtain sd samples
    where s: "summary_inputs percentage_test_records = Inr (sd, samples)" by blast
  show ?thesis
    using summary_temperature_is_fixed [where self = default_analyzer
        and answer = "always_reply ''Summary''" and rs = percentage_test_records
        and loads = "parses_to (JDict [])" and answer' = "always_reply ''{}''"
        and R = "''Great product''"] s
    by (simp add: default_analyzer_def)
qed

text \<open>
  Claim C9 as stated fails: an analyzer configured with the temperature 0.5, which lies
  in the range from 0 to 1, sends its extraction request and its summary request with
  the same temperature.
\<close>

theorem summary_temperature_not_higher:
  "0 \<le> temperature custom_analyzer \<and> temperature custom_analyzer \<le> 1
   \<and> temperatures (snd (analyze_sentiment (parses_to (JDict [])) custom_analyzer
        (recording_client (always_reply ''{}'')) [] ''Great product'')) = [1 / 2]
   \<and> temperatures (snd (generate_summary custom_analyzer
        (recording_client (always_reply ''Summary'')) [] percentage_test_records)) = [1 / 2]"
proof -
  from summary_inputs_records [OF percentage_test_records_ok] obtain sd samples
    where "summary_inputs percentage_test_records = Inr (sd, samples)" by blast
  then show ?thesis
    by (simp add: temperatures_def analyze_sentiment_recorded generate_summary_recorded
        summary_request_def sentiment_request_def custom_analyzer_def)
qed

text \<open>
  Claim C3. On the empty list of records \<open>generate_report\<close> does not return: the first
  percentage divides by the length of the list, \<^verbatim>\<open>ZeroDivisionError\<close> is raised outside
  every \<^verbatim>\<open>try\<close> block, and the service has not been called. The average, which stands
  just before it in the report, is guarded and is 0 on the empty list.
\<close>

theorem generate_report_empty_raises:
  "generate_report self client w [] = (Inl ZeroDivisionError, w)
   \<and> percentage [] ''positive'' = Inl ZeroDivisionError
   \<and> rating [] = Inr (PyInt 0)"
  by (simp add: generate_report_def report_statistics_def then_do_def Counter_def rating_def
      percentage_def int_truediv_def count_str_def)

theorem generate_report_empty_raises_witness:
  "generate_report default_analyzer (replying_client ''Summary'') () []
     = (Inl (PyError ''ZeroDivisionError'' ''division by zero''), ())"
  using generate_report_empty_raises [of default_analyzer "replying_client ''Summary''" "()"]
  by (simp add: ZeroDivisionError_def)








text \<open>
  Claim C8. Whenever \<open>generate_summary\<close> gets as far as its aggregate, the
  \<^verbatim>\<open>common_points\<close> of the aggregate are the selection of the 10 most frequent of the
  key points gathered from the records in their order, and the \<^verbatim>\<open>common_emotions\<close> the
  selection of the 5 most frequent of the emotions gathered: most frequent first, equally
  frequent ones in the order they are first met, none twice, and nothing left out that
  would come before a selected one. For records of the data model the aggregate is
  always reached, and what is gathered is the concatenation of the records'
  \<^verbatim>\<open>key_points\<close> lists, and of their \<^verbatim>\<open>emotions\<close> lists, in record order. The
  aggregate with these selections is what the one request of \<open>generate_summary\<close>
  carries in its prompt. The selection is a function of the records alone: neither the
  service nor its state enters \<open>summary_inputs\<close>.
\<close>

theorem common_items_are_the_most_frequent:
  "(summary_inputs rs = Inr (sd, samples) \<longrightarrow>
      map rq_user (snd (generate_summary self (recording_client answer) [] rs))
        = [SummaryPrompt sd samples]
      \<and> (\<exists>pts ems. gather [] [] rs = Inr (pts, ems)
         \<and> selects 10 pts (sd_common_points sd)
         \<and> selects 5 ems (sd_common_emotions sd)))
   \<and> (list_all sentiment_record rs \<longrightarrow>
        (\<exists>made shown. summary_inputs rs = Inr (made, shown))
        \<and> gather [] [] rs = Inr (concat (map (items_of ''key_points'') rs),
                                  concat (map (items_of ''emotions'') rs)))"
proof (intro conjI impI)
  assume "summary_inputs rs = Inr (sd, samples)"
  then show "map rq_user (snd (generate_summary self (recording_client answer) [] rs))
        = [SummaryPrompt sd samples]"
    by (simp add: generate_summary_recorded summary_request_def)
next
  assume "summary_inputs rs = Inr (sd, samples)"
  then show "\<exists>pts ems. gather [] [] rs = Inr (pts, ems)
         \<and> selects 10 pts (sd_common_points sd)
         \<and> selects 5 ems (sd_common_emotions sd)"
    by (rule summary_inputs_selects)
next
  assume "list_all sentiment_record rs"
  from summary_inputs_records [OF this]
  show "\<exists>made shown. summary_inputs rs = Inr (made, shown)" by blast
next
  assume "list_all sentiment_record rs"
  from gather_records [OF this, of "[]" "[]"]
  show "gather [] [] rs = Inr (concat (map (items_of ''key_points'') rs),
                                  concat (map (items_of ''emotions'') rs))"
    by simp
qed

text \<open>
  In \<open>tie_records\<close> battery and price occur twice each and battery is met first; happy
  occurs twice and annoyed once.
\<close>

theorem common_items_are_the_most_frequent_witness:
  "\<exists>sd samples. summary_inputs tie_records = Inr (sd, samples)
     \<and> sd_common_points sd = [JStr ''battery'', JStr ''price'', JStr ''screen'']
     \<and> sd_common_emotions sd = [JStr ''happy'', JStr ''annoyed'']
     \<and> selects 10 [JStr ''battery'', JStr ''price'', JStr ''price'', JStr ''battery'',
                    JStr ''screen'']
          [JStr ''battery'', JStr ''price'', JStr ''screen'']
     \<and> selects 5 [JStr ''happy'', JStr ''annoyed'', JStr ''happy'']
          [JStr ''happy'', JStr ''annoyed'']
     \<and> map rq_user (snd (generate_summary default_analyzer
            (recording_client (always_reply ''Summary'')) [] tie_records))
         = [SummaryPrompt sd samples]"
proof -
  define pts where "pts = concat (map (items_of ''key_points'') tie_records)"
  define ems where "ems = concat (map (items_of ''emotions'') tie_records)"
  from summary_inputs_records [OF tie_records_ok] obtain avg samples where
    s: "summary_inputs tie_records =
           Inr (\<lparr> sd_total_reviews = length tie_records,
                  sd_sentiment_breakdown = foldl counter_add [] (map sentiment_of tie_records),
                  sd_average_score = avg,
                  sd_common_points = map fst (most_common 10 (foldl counter_add [] pts)),
                  sd_common_emotions = map fst (most_common 5 (foldl counter_add [] ems)) \<rparr>,
                samples)"
    unfolding pts_def ems_def by blast
  define sd where "sd = \<lparr> sd_total_reviews = length tie_records,
                  sd_sentiment_breakdown = foldl counter_add [] (map sentiment_of tie_records),
                  sd_average_score = avg,
                  sd_common_points = map fst (most_common 10 (foldl counter_add [] pts)),
                  sd_common_emotions = map fst (most_common 5 (foldl counter_add [] ems)) \<rparr>"
  have s': "summary_inputs tie_records = Inr (sd, samples)" by (simp only: s sd_def)
  have p: "pts = [JStr ''battery'', JStr ''price'', JStr ''price'', JStr ''battery'',
                  JStr ''screen'']"
    and e: "ems = [JStr ''happy'', JStr ''annoyed'', JStr ''happy'']"
    by (simp_all only: pts_def ems_def tie_records_items)
  have cp: "sd_common_points sd = [JStr ''battery'', JStr ''price'', JStr ''screen'']"
    and ce: "sd_common_emotions sd = [JStr ''happy'', JStr ''annoyed'']"
    by (simp_all only: sd_def p e tie_records_counted summary_data.select_convs)
  from common_items_are_the_most_frequent [of tie_records sd samples default_analyzer
      "always_reply ''Summary''"] s' tie_records_ok
  have "selects 10 pts (sd_common_points sd) \<and> selects 5 ems (sd_common_emotions sd)"
    and "map rq_user (snd (generate_summary default_analyzer
            (recording_client (always_reply ''Summary'')) [] tie_records))
         = [SummaryPrompt sd samples]"
    unfolding pts_def ems_def by auto
  then show ?thesis using s' cp ce p e by auto
qed

end
